theory Spec2Isabelle
  imports Complex_Main
begin

section \<open>Python exceptions and indexing\<close>

text \<open>
  The flowsheet scripts are Python. Every exception a modelled function can raise is a
  constructor of \<open>py_error\<close>, and a function that can raise returns \<open>py_error + 'a\<close>
  with \<open>Inl\<close> for the exception; \<open>and_then\<close> runs the next statement on the
  value of the previous one and passes an exception on. Python floats are modelled as
  reals, exactly where the code only builds expressions for the solver, and with the
  rounding of each operation written out where the code itself computes and compares
  (\<open>add_vagmd\<close>).
\<close>

datatype py_error =
    IndexError
  | KeyError
  | ZeroDivisionError
  | UnboundLocalError
  | ValueError
  | TypeError
  | AssertionError
  | RuntimeError string
  | InitializationError string

definition py_index :: "'a list \<Rightarrow> nat \<Rightarrow> py_error + 'a" where
  "py_index xs i = (if i < length xs then Inr (xs ! i) else Inl IndexError)"

definition and_then :: "py_error + 'a \<Rightarrow> ('a \<Rightarrow> py_error + 'b) \<Rightarrow> py_error + 'b" where
  "and_then r f = (case r of Inl e \<Rightarrow> Inl e | Inr x \<Rightarrow> f x)"

section \<open>seto/analysis/multiperiod/PV\_RO\_battery\_mutiperiod\_class.py\<close>

subsection \<open>Variables of a time block\<close>

text \<open>
  The variables of one time block that the module names: those of \<open>fs.battery\<close> and
  \<open>fs.pv.size\<close>. A variable of the multi-period model is a pair of the index of its
  time block and its name.
\<close>

datatype var_name =
    state_of_charge
  | initial_state_of_charge
  | energy_throughput
  | initial_energy_throughput
  | nameplate_power
  | nameplate_energy
  | pv_size

type_synonym var_ref = "nat \<times> var_name"

definition get_pv_ro_variable_pairs :: "nat \<Rightarrow> nat \<Rightarrow> (var_ref \<times> var_ref) list" where
  "get_pv_ro_variable_pairs t1 t2 =
     [((t1, state_of_charge), (t2, initial_state_of_charge)),
      ((t1, energy_throughput), (t2, initial_energy_throughput)),
      ((t1, nameplate_power), (t2, nameplate_power)),
      ((t1, nameplate_energy), (t2, nameplate_energy)),
      ((t1, pv_size), (t2, pv_size))]"

subsection \<open>The multi-period model\<close>

record flowsheet_kwargs =
  GHI :: real
  elec_price :: real
  ro_capacity :: real
  ro_elec_req :: real

text \<open>
  \<open>MultiPeriodModel\<close> belongs to the external framework. What the module relies on is
  kept: one process block per time point, built from that point's keyword arguments; for
  every two consecutive blocks one equality constraint per pair returned by the linking
  function (\<open>link_constraints\<close>, indexed by the earlier block); the set of fixed
  variables with their values; and the objective \<open>obj\<close>, a function of a valuation of
  the variables and of the grid cost of each block (see the cost expressions below), which
  the framework leaves unset.
\<close>

record multiperiod =
  blocks :: "flowsheet_kwargs list"
  link_constraints :: "(var_ref \<times> var_ref) list list"
  fixed :: "var_ref \<rightharpoonup> real"
  obj :: "((var_ref \<Rightarrow> real) \<Rightarrow> (nat \<Rightarrow> real) \<Rightarrow> real) option"

definition build_multi_period_model ::
  "(nat \<Rightarrow> nat \<Rightarrow> (var_ref \<times> var_ref) list) \<Rightarrow> flowsheet_kwargs list \<Rightarrow>
   (var_ref \<rightharpoonup> real) \<Rightarrow> multiperiod" where
  "build_multi_period_model linking_variable_func model_data_kwargs built_fixed =
     \<lparr>blocks = model_data_kwargs,
      link_constraints =
        map (\<lambda>t. linking_variable_func t (Suc t)) [0..<length model_data_kwargs - 1],
      fixed = built_fixed,
      obj = None\<rparr>"

text \<open>
  The dictionary comprehension over \<open>range(n_time_points)\<close>: \<open>GHI[t]\<close> and
  \<open>elec_price[t]\<close> raise IndexError past the end of their lists.
\<close>

fun flowsheet_options ::
  "real list \<Rightarrow> real list \<Rightarrow> real \<Rightarrow> real \<Rightarrow> nat list \<Rightarrow> py_error + flowsheet_kwargs list" where
  "flowsheet_options ghi price cap req [] = Inr []"
| "flowsheet_options ghi price cap req (t # ts) =
     (case py_index ghi t of
        Inl e \<Rightarrow> Inl e
      | Inr g \<Rightarrow>
          (case py_index price t of
             Inl e \<Rightarrow> Inl e
           | Inr p \<Rightarrow>
               (case flowsheet_options ghi price cap req ts of
                  Inl e \<Rightarrow> Inl e
                | Inr rest \<Rightarrow>
                    Inr (\<lparr>GHI = g, elec_price = p, ro_capacity = cap, ro_elec_req = req\<rparr>
                         # rest))))"

subsection \<open>Cost expressions\<close>

text \<open>
  The four \<open>Expression\<close>s of the model, as functions of a valuation \<open>val\<close> of the
  variables and of the value \<open>grid_cost i\<close> of block \<open>i\<close>'s grid cost (defined by the
  flowsheet module, another module of the package).
\<close>

definition battery_cost :: "real \<Rightarrow> real \<Rightarrow> (var_ref \<Rightarrow> real) \<Rightarrow> real" where
  "battery_cost cost_battery_power cost_battery_energy val =
     0.096 * (cost_battery_power * val (0, nameplate_power)
              + cost_battery_energy * val (0, nameplate_energy))"

definition pv_cost :: "(var_ref \<Rightarrow> real) \<Rightarrow> real" where
  "pv_cost val = 1040 * val (0, pv_size) * 0.096 + 9 * val (0, pv_size)"

definition total_cost ::
  "int \<Rightarrow> real \<Rightarrow> real \<Rightarrow> (var_ref \<Rightarrow> real) \<Rightarrow> (nat \<Rightarrow> real) \<Rightarrow> real" where
  "total_cost n_time_points cost_battery_power cost_battery_energy val grid_cost =
     (battery_cost cost_battery_power cost_battery_energy val + pv_cost val)
       / 365 / 24 * of_int n_time_points
     + sum_list (map grid_cost [0..<nat n_time_points])"

text \<open>Dividing by a zero \<open>ro_capacity\<close> raises ZeroDivisionError.\<close>

definition LCOW ::
  "int \<Rightarrow> real \<Rightarrow> real \<Rightarrow> real \<Rightarrow> (var_ref \<Rightarrow> real) \<Rightarrow> (nat \<Rightarrow> real) \<Rightarrow> py_error + real" where
  "LCOW n_time_points cap cost_battery_power cost_battery_energy val grid_cost =
     (if cap = 0 then Inl ZeroDivisionError
      else Inr (total_cost n_time_points cost_battery_power cost_battery_energy val grid_cost
                  / cap / 24 * of_int n_time_points + 0.45))"

text \<open>
  The levelized cost of water in the specification's words: the total cost divided by the
  volume of water produced over the horizon, \<open>cap\<close> cubic metres per day during
  \<open>n_time_points\<close> hours, plus the fixed contribution 0.45 of the RO unit.
\<close>

definition produced_volume :: "int \<Rightarrow> real \<Rightarrow> real" where
  "produced_volume n_time_points cap = cap / 24 * of_int n_time_points"

definition levelized_cost_of_water :: "int \<Rightarrow> real \<Rightarrow> real \<Rightarrow> real" where
  "levelized_cost_of_water n_time_points cap cost =
     cost / produced_volume n_time_points cap + 0.45"

subsection \<open>Creating the model\<close>

text \<open>
  \<open>create_multiperiod_pv_battery_model\<close>, in the order of its statements: the keyword
  arguments of the time blocks, the multi-period model, the two \<open>fix(0)\<close> calls on block
  0, the four expressions and the objective. \<open>built_fixed\<close> stands for the variables that
  \<open>build_pv_battery_flowsheet\<close> (in another module of the package) leaves fixed. With no
  time block, the call raises IndexError. The expressions are constructed when they
  are declared, and the division by \<open>ro_capacity\<close> in \<open>LCOW\<close> raises ZeroDivisionError
  when \<open>ro_capacity\<close> is zero. The objective of the model returned is the \<open>LCOW\<close>
  expression.
\<close>

definition create_multiperiod_pv_battery_model ::
  "int \<Rightarrow> real \<Rightarrow> real \<Rightarrow> real \<Rightarrow> real \<Rightarrow> real list \<Rightarrow> real list \<Rightarrow>
   (var_ref \<rightharpoonup> real) \<Rightarrow> py_error + multiperiod" where
  "create_multiperiod_pv_battery_model n_time_points cap req cost_battery_power
     cost_battery_energy ghi price built_fixed =
     (case flowsheet_options ghi price cap req [0..<nat n_time_points] of
        Inl e \<Rightarrow> Inl e
      | Inr opts \<Rightarrow>
          (let mp = build_multi_period_model get_pv_ro_variable_pairs opts built_fixed
           in if blocks mp = [] then Inl IndexError
              else
                let mp = mp\<lparr>fixed := (fixed mp)
                            ((0, initial_state_of_charge) \<mapsto> 0,
                             (0, initial_energy_throughput) \<mapsto> 0)\<rparr>
                in if cap = 0 then Inl ZeroDivisionError
                   else Inr (mp\<lparr>obj :=
                          Some (\<lambda>val grid_cost.
                             total_cost n_time_points cost_battery_power cost_battery_energy
                               val grid_cost
                             / cap / 24 * of_int n_time_points + 0.45)\<rparr>)))"

section \<open>seto/analysis/multiperiod/ltmed\_vagmd\_semibatch/MED\_VAGMD\_flowsheet.py\<close>

subsection \<open>Double-precision arithmetic\<close>

text \<open>
  \<open>add_vagmd\<close> divides two floats and compares the quotient with \<open>175.3\<close>, so which
  branch it takes depends on rounding. A float is modelled as the real number it holds,
  and every operation and every decimal literal rounds to the nearest double, ties to the
  even significand: \<open>to_double x\<close> is the multiple of the unit in the last place nearest
  to \<open>x\<close>, where the unit is \<open>2 ^ (e - 52)\<close> for the binary exponent \<open>e\<close> of
  \<open>x\<close>, not below \<open>-1022\<close> (subnormal numbers). \<open>exponent_from n e x\<close> searches
  downwards from \<open>e\<close>, in at most \<open>n\<close> steps, for the first power of two not above
  \<open>x\<close>.

  Infinities and NaN are not modelled. Of the operations of \<open>add_vagmd\<close> only the
  division can overflow; its result is only compared with \<open>175.3\<close>, and the comparison
  of the infinity that Python returns and of the large number \<open>to_double\<close> returns come
  out the same.
\<close>

fun exponent_from :: "nat \<Rightarrow> int \<Rightarrow> real \<Rightarrow> int" where
  "exponent_from 0 e x = e"
| "exponent_from (Suc n) e x = (if 2 powi e \<le> x then e else exponent_from n (e - 1) x)"

definition double_exponent :: "real \<Rightarrow> int" where
  "double_exponent x = exponent_from 2045 1023 \<bar>x\<bar>"

definition round_half_even :: "real \<Rightarrow> int" where
  "round_half_even y =
     (let f = \<lfloor>y\<rfloor>; r = y - of_int f
      in if r < 1 / 2 then f else if 1 / 2 < r then f + 1 else if even f then f else f + 1)"

definition to_double :: "real \<Rightarrow> real" where
  "to_double x =
     (let ulp = 2 powi (double_exponent x - 52)
      in of_int (round_half_even (x / ulp)) * ulp)"

subsection \<open>The inputs dictionary\<close>

text \<open>
  The values of the \<open>inputs\<close> dictionary are numbers and strings. \<open>Num x\<close> is a float,
  or an int of magnitude at most \<open>2 ^ 53\<close>, of value \<open>x\<close> (such an int behaves as the
  float of the same value in the three operations below). \<open>getitem d k\<close> is \<open>d[k]\<close>.
\<close>

datatype py_value = Num real | Str string

type_synonym py_dict = "string \<rightharpoonup> py_value"

definition getitem :: "py_dict \<Rightarrow> string \<Rightarrow> py_error + py_value" where
  "getitem d k = (case d k of None \<Rightarrow> Inl KeyError | Some v \<Rightarrow> Inr v)"

text \<open>
  The three arithmetic operations of \<open>add_vagmd\<close>. In each, one operand is a number
  written in the code (\<open>1\<close> and \<open>273.15\<close>) or computed by it (the divisor), so that a
  string as the other operand raises TypeError. The division raises TypeError for a
  string dividend whatever the divisor, and ZeroDivisionError for a zero divisor.
\<close>

definition py_sub :: "real \<Rightarrow> py_value \<Rightarrow> py_error + real" where
  "py_sub x v = (case v of Num y \<Rightarrow> Inr (to_double (x - y)) | Str s \<Rightarrow> Inl TypeError)"

definition py_truediv :: "py_value \<Rightarrow> real \<Rightarrow> py_error + real" where
  "py_truediv v y =
     (case v of
        Str s \<Rightarrow> Inl TypeError
      | Num x \<Rightarrow> if y = 0 then Inl ZeroDivisionError else Inr (to_double (x / y)))"

definition py_add :: "py_value \<Rightarrow> real \<Rightarrow> py_error + real" where
  "py_add v y = (case v of Num x \<Rightarrow> Inr (to_double (x + y)) | Str s \<Rightarrow> Inl TypeError)"

subsection \<open>\<open>add_vagmd\<close>\<close>

text \<open>
  The unit \<open>fs.vagmd\<close>: the three configuration arguments that \<open>add_vagmd\<close> passes to the
  constructor, and the fixed variables of the unit. \<open>feed_flow_vol\<close> is the feed's
  volumetric flow, \<open>feed_props[0].flow_vol_phase["Liq"]\<close>, which the module reads in
  \<open>eq_dt\<close> and sets in \<open>fix_dof_and_initialize\<close>.
\<close>

datatype vagmd_var =
    evaporator_in_temperature
  | condenser_in_temperature
  | cooling_in_temperature
  | feed_flow_vol

record vagmd_unit =
  config_module_type :: py_value
  config_high_brine_salinity :: bool
  config_cooling_system_type :: py_value
  fixed_vars :: "vagmd_var \<rightharpoonup> real"

text \<open>
  The unit class \<open>VAGMDSurrogateBase\<close> is defined in another module of the package;
  \<open>add_vagmd\<close> below takes its constructor as a parameter, a function of the module
  type, \<open>high_brine_salinity\<close> and the cooling system type (the two property packages
  play no part here) that returns the unit or raises. \<open>bare_unit\<close> is one such
  constructor, which keeps its arguments as the configuration and fixes no variable.
\<close>

definition bare_unit :: "py_value \<Rightarrow> bool \<Rightarrow> py_value \<Rightarrow> py_error + vagmd_unit" where
  "bare_unit mt hbs cst =
     Inr \<lparr>config_module_type = mt, config_high_brine_salinity = hbs,
          config_cooling_system_type = cst, fixed_vars = Map.empty\<rparr>"

definition fix_var :: "vagmd_var \<Rightarrow> real \<Rightarrow> vagmd_unit \<Rightarrow> vagmd_unit" where
  "fix_var v x u = u\<lparr>fixed_vars := (fixed_vars u)(v \<mapsto> x)\<rparr>"

text \<open>
  \<open>add_vagmd\<close>, statement by statement: the nine reads of the dictionary in the order of
  the source (each raises KeyError on a missing key, also \<open>cooling_inlet_temp\<close>, which
  a closed cooling circuit does not use), the final brine salinity, the \<open>if\<close> that
  reassigns four local variables, the construction of the unit, and the two \<open>fix\<close>
  calls. The locals \<open>feed_flow_rate\<close> and \<open>feed_temp\<close> are read by no statement.
\<close>

definition add_vagmd ::
  "(py_value \<Rightarrow> bool \<Rightarrow> py_value \<Rightarrow> py_error + vagmd_unit) \<Rightarrow> py_dict
     \<Rightarrow> py_error + vagmd_unit" where
  "add_vagmd VAGMDSurrogateBase inputs =
     and_then (getitem inputs ''feed_flow_rate'') (\<lambda>feed_flow_rate.
     and_then (getitem inputs ''evap_inlet_temp'') (\<lambda>evap_inlet_temp.
     and_then (getitem inputs ''cond_inlet_temp'') (\<lambda>cond_inlet_temp.
     and_then (getitem inputs ''feed_temp'') (\<lambda>feed_temp.
     and_then (getitem inputs ''feed_salinity'') (\<lambda>feed_salinity.
     and_then (getitem inputs ''recovery_ratio'') (\<lambda>recovery_ratio.
     and_then (getitem inputs ''module_type'') (\<lambda>module_type.
     and_then (getitem inputs ''cooling_system_type'') (\<lambda>cooling_system_type.
     and_then (getitem inputs ''cooling_inlet_temp'') (\<lambda>cooling_inlet_temp.
     and_then (py_sub 1 recovery_ratio) (\<lambda>divisor.
     and_then (py_truediv feed_salinity divisor) (\<lambda>final_brine_salinity.
       let (cooling_system_type, feed_flow_rate, evap_inlet_temp, cond_inlet_temp,
            high_brine_salinity) =
             (if module_type = Str ''AS7C1.5L'' \<and> final_brine_salinity > to_double 175.3
              then (Str ''closed'', Num 1100, Num 80, Num 25, True)
              else (cooling_system_type, feed_flow_rate, evap_inlet_temp, cond_inlet_temp,
                    False))
       in
     and_then (VAGMDSurrogateBase module_type high_brine_salinity cooling_system_type)
       (\<lambda>vagmd.
     and_then (py_add evap_inlet_temp (to_double 273.15)) (\<lambda>t.
       let vagmd = fix_var evaporator_in_temperature t vagmd
       in if cooling_system_type = Str ''closed''
          then and_then (py_add cond_inlet_temp (to_double 273.15)) (\<lambda>t.
                 Inr (fix_var condenser_in_temperature t vagmd))
          else and_then (py_add cooling_inlet_temp (to_double 273.15)) (\<lambda>t.
                 Inr (fix_var cooling_in_temperature t vagmd)))))))))))))))"

section \<open>reflo/solar\_models/zero\_order/flat\_plate\_pysam.py: the model\<close>

text \<open>
  The variables of a \<open>FlatPlatePySAM\<close> block that its constraints and bounds mention:
  \<open>heat\<close> and \<open>electricity\<close> come from the base class, the others are declared in
  \<open>build\<close>.
\<close>

datatype fp_var = heat | electricity | heat_load | heat_annual | electricity_annual

text \<open>
  \<open>pyunits.convert\<close> between units of time. The unit registry of the framework defines
  the day as 24 hours and the year as 365.25 days.
\<close>

datatype time_unit = year | day | hour

fun in_hours :: "time_unit \<Rightarrow> real" where
  "in_hours year = 365.25 * 24"
| "in_hours day = 24"
| "in_hours hour = 1"

definition pyunits_convert :: "real \<Rightarrow> time_unit \<Rightarrow> time_unit \<Rightarrow> real" where
  "pyunits_convert quantity from_units to_units =
     quantity * in_hours from_units / in_hours to_units"

text \<open>
  A block holds equality constraints, each with a name and its two sides as functions of
  the values of the variables, and lower bounds of variables. A point is feasible when it
  satisfies every constraint and every bound of the block; a solved model is at such a
  point.
\<close>

record constraint =
  con_name :: string
  lhs :: "(fp_var \<Rightarrow> real) \<Rightarrow> real"
  rhs :: "(fp_var \<Rightarrow> real) \<Rightarrow> real"

record block =
  constraints :: "constraint list"
  lower_bounds :: "(fp_var \<times> real) list"

definition feasible :: "(fp_var \<Rightarrow> real) \<Rightarrow> block \<Rightarrow> bool" where
  "feasible v b \<longleftrightarrow>
     (\<forall>c \<in> set (constraints b). lhs c v = rhs c v) \<and>
     (\<forall>(x, l) \<in> set (lower_bounds b). l \<le> v x)"

text \<open>
  What a solve of a block gives: \<open>point results\<close> is the values that a results object
  of the external solver loads into the variables, and a results object that passes the
  framework's test \<open>check_optimal_termination\<close> carries a feasible point of the block.
\<close>

definition optimal_is_feasible ::
  "('r \<Rightarrow> bool) \<Rightarrow> ('r \<Rightarrow> fp_var \<Rightarrow> real) \<Rightarrow> block \<Rightarrow> bool" where
  "optimal_is_feasible check_optimal_termination point b \<longleftrightarrow>
     (\<forall>results. check_optimal_termination results \<longrightarrow> feasible (point results) b)"

text \<open>
  \<open>FlatPlateSurrogateData.build\<close>: to the block \<open>base\<close> left by the base class it adds
  the bound \<open>(0, None)\<close> of \<open>heat_load\<close> and the two constraints. (Its parameters and
  its three expressions constrain nothing.)
\<close>

definition build :: "block \<Rightarrow> block" where
  "build base =
     base\<lparr>lower_bounds := lower_bounds base @ [(heat_load, 0)],
          constraints := constraints base @
            [\<lparr>con_name = ''heat_constraint'',
              lhs = (\<lambda>v. v heat_annual),
              rhs = (\<lambda>v. v heat * pyunits_convert 1 year hour)\<rparr>,
             \<lparr>con_name = ''electricity_constraint'',
              lhs = (\<lambda>v. v electricity_annual),
              rhs = (\<lambda>v. v electricity * pyunits_convert 1 year hour)\<rparr>]\<rparr>"

section \<open>Running a script\<close>

text \<open>
  What a script does is recorded as a list of events, in order: a call that constructs,
  configures or initialises model components (\<open>Assemble\<close>), an invocation of the external
  solver on a model (\<open>SolverSolve\<close>), the output of the value of a levelized cost, one
  of LCOW, LCOT and LCOH (\<open>Report\<close>), and any other output to the console, the log or a
  figure (\<open>Output\<close>). A function of a module that only constructs, configures or
  initialises model components, without calling the solver or printing a levelized cost,
  is one \<open>Assemble\<close> event named after it.
\<close>

datatype event =
    Assemble string
  | SolverSolve string
  | Report string
  | Output string

record run_state =
  events :: "event list"
  solves :: nat

definition initial :: run_state where
  "initial = \<lparr>events = [], solves = 0\<rparr>"

text \<open>
  A statement takes the state of the run and returns the next state with a value or the
  exception it raised; an exception ends every enclosing sequence.
\<close>

type_synonym 'a prog = "run_state \<Rightarrow> (py_error + 'a) \<times> run_state"

definition py_return :: "'a \<Rightarrow> 'a prog" where
  "py_return x s = (Inr x, s)"

definition py_raise :: "py_error \<Rightarrow> 'a prog" where
  "py_raise e s = (Inl e, s)"

definition py_bind :: "'a prog \<Rightarrow> ('a \<Rightarrow> 'b prog) \<Rightarrow> 'b prog" where
  "py_bind p f s = (case p s of (Inl e, s') \<Rightarrow> (Inl e, s') | (Inr x, s') \<Rightarrow> f x s')"

fun py_seq :: "unit prog list \<Rightarrow> unit prog" where
  "py_seq [] = py_return ()"
| "py_seq (p # ps) = py_bind p (\<lambda>_. py_seq ps)"

definition ignore :: "'a prog \<Rightarrow> unit prog" where
  "ignore p = py_bind p (\<lambda>_. py_return ())"

definition emit :: "event \<Rightarrow> unit prog" where
  "emit e s = (Inr (), s\<lparr>events := events s @ [e]\<rparr>)"


text \<open>
  The external solver: \<open>outcome k\<close> is what its \<open>k\<close>-th invocation in the run does, return
  a results object or raise. \<open>check_optimal_termination\<close> is the framework's test on a
  results object, a parameter of everything below, and \<open>assert_optimal_termination\<close> is
  the framework's assertion, which raises RuntimeError when the test fails; its message
  ends with the solver status and the termination condition of the results object, which
  \<open>status_text\<close> renders.
\<close>

definition solver_solve :: "(nat \<Rightarrow> py_error + 'r) \<Rightarrow> string \<Rightarrow> 'r prog" where
  "solver_solve outcome name s =
     (outcome (solves s),
      s\<lparr>events := events s @ [SolverSolve name], solves := Suc (solves s)\<rparr>)"

definition assert_optimal_termination ::
  "('r \<Rightarrow> bool) \<Rightarrow> ('r \<Rightarrow> string) \<Rightarrow> 'r \<Rightarrow> unit prog" where
  "assert_optimal_termination check_optimal_termination status_text results =
     (if check_optimal_termination results then py_return ()
      else py_raise (RuntimeError
             (''Solver failed to return an optimal solution. '' @ status_text results)))"

section \<open>reflo/solar\_models/zero\_order/flat\_plate\_pysam.py: initialization\<close>

text \<open>
  \<open>FlatPlateSurrogateData.initialize\<close>. The local \<open>opt\<close> is bound only when the argument
  \<open>solver\<close> is None; with any other argument, \<open>opt.solve(self)\<close> reads an unbound local.
\<close>

definition initialize ::
  "(nat \<Rightarrow> py_error + 'r) \<Rightarrow> ('r \<Rightarrow> bool) \<Rightarrow> string \<Rightarrow> string option \<Rightarrow> unit prog" where
  "initialize outcome check_optimal_termination name solver =
     (case solver of
        None \<Rightarrow>
          py_bind (solver_solve outcome name) (\<lambda>res.
          py_bind (emit (Output ''Initialization Step 2'')) (\<lambda>_.
            if \<not> check_optimal_termination res
            then py_raise (InitializationError
                             (''Unit model '' @ name @ '' failed to initialize''))
            else emit (Output ''Initialization Complete'')))
      | Some _ \<Rightarrow> py_raise UnboundLocalError)"

section \<open>reflo/analysis/case\_studies/KBHDP/KBHDP\_RPT\_3.py\<close>

definition infeasible_msg :: string where
  "infeasible_msg =
     ''The current configuration is infeasible. Please adjust the decision variables.''"

text \<open>\<open>solve\<close>; \<open>name\<close> is the name of the model \<open>m\<close>.\<close>

definition solve ::
  "(nat \<Rightarrow> py_error + 'r) \<Rightarrow> ('r \<Rightarrow> bool) \<Rightarrow> string \<Rightarrow> bool \<Rightarrow> 'r prog" where
  "solve outcome check_optimal_termination name raise_on_failure =
     py_bind (emit (Output (''--------- SOLVING '' @ name @ '' ---------''))) (\<lambda>_.
     py_bind (solver_solve outcome name) (\<lambda>results.
       if check_optimal_termination results
       then py_bind (emit (Output ''--------- OPTIMAL SOLVE!!! ---------'')) (\<lambda>_.
            py_return results)
       else if raise_on_failure
       then py_bind (emit (Output ''print_infeasible_bounds'')) (\<lambda>_.
            py_bind (emit (Output ''print_close_to_bounds'')) (\<lambda>_.
            py_raise (RuntimeError infeasible_msg)))
       else py_bind (emit (Output infeasible_msg)) (\<lambda>_.
            py_return results)))"

text \<open>
  \<open>optimize_rpt3\<close>; \<open>dof\<close> is the number of degrees of freedom the framework reports
  at the final \<open>assert\<close>.
\<close>

definition optimize_rpt3 :: "bool \<Rightarrow> bool \<Rightarrow> string \<Rightarrow> int \<Rightarrow> unit prog" where
  "optimize_rpt3 grid_frac_heat_given heat_price_given objective dof =
     py_seq
       [emit (Output ''DOF before optimization''),
        if objective = ''LCOW'' then emit (Assemble ''lcow_objective'') else py_return (),
        if objective = ''LCOT'' then emit (Assemble ''lcot_objective'') else py_return (),
        if grid_frac_heat_given
        then py_seq [emit (Assemble ''FPC.heat_load.unfix''),
                     emit (Assemble ''frac_heat_from_grid.fix'')]
        else py_return (),
        if heat_price_given
        then py_seq [emit (Assemble ''FPC.heat_load.unfix''),
                     emit (Assemble ''FPC.hours_storage.unfix''),
                     emit (Assemble ''frac_heat_from_grid.unfix''),
                     emit (Assemble ''heat_cost_buy.fix'')]
        else py_return (),
        emit (Output ''Degrees of Feedom''),
        if dof \<ge> 0 then py_return () else py_raise AssertionError]"

definition build_sweep ::
  "(nat \<Rightarrow> py_error + 'r) \<Rightarrow> ('r \<Rightarrow> bool) \<Rightarrow> bool \<Rightarrow> bool \<Rightarrow> string \<Rightarrow> int \<Rightarrow> unit prog" where
  "build_sweep outcome chk grid_frac_heat_given heat_price_given objective dof =
     py_seq
       [emit (Assemble ''build_system''),
        emit (Assemble ''add_connections''),
        emit (Assemble ''set_operating_conditions''),
        emit (Assemble ''apply_scaling''),
        emit (Assemble ''init_system''),
        emit (Assemble ''FPC.heat_load.unfix''),
        ignore (solve outcome chk ''fs.treatment.md'' True),
        ignore (solve outcome chk ''m'' False),
        emit (Assemble ''FPC.heat_load.fix''),
        ignore (solve outcome chk ''m'' True),
        emit (Assemble ''add_costing''),
        ignore (solve outcome chk ''m'' True),
        optimize_rpt3 grid_frac_heat_given heat_price_given objective dof]"


text \<open>
  The block under \<open>if __name__ == "__main__"\<close>: \<open>build_sweep\<close> is called with a heat
  price and the default objective, and \<open>LCOT.display()\<close> prints the levelized cost of
  treatment.
\<close>

definition KBHDP_script :: "(nat \<Rightarrow> py_error + 'r) \<Rightarrow> ('r \<Rightarrow> bool) \<Rightarrow> int \<Rightarrow> unit prog" where
  "KBHDP_script outcome chk dof =
     py_seq
       [build_sweep outcome chk False True ''LCOT'' dof,
        emit (Report ''LCOT''),
        emit (Output ''FPC.heat_load''),
        ignore (solve outcome chk ''m'' True),
        emit (Report ''LCOT''),
        emit (Output ''FPC.heat_load'')]"

text \<open>
  \<open>report_costing\<close> and \<open>print_results_summary\<close>; no statement of the module calls
  the latter.
\<close>

definition report_costing :: "unit prog" where
  "report_costing =
     py_seq
       [emit (Output ''System Costing Report''),
        emit (Output []),
        emit (Report ''LCOT''),
        emit (Output ''Capital Cost''),
        emit (Output ''Total Operating Cost''),
        emit (Output ''Agg Fixed Operating Cost''),
        emit (Output ''Agg Variable Operating Cost''),
        emit (Output ''Heat flow''),
        emit (Output ''Heat purchased''),
        emit (Output ''Heat sold''),
        emit (Output ''Elec Flow''),
        emit (Output ''Elec purchased''),
        emit (Output ''Elec sold'')]"

definition print_results_summary :: "unit prog" where
  "print_results_summary =
     py_seq
       [emit (Output ''After Optimization System Degrees of Freedom''),
        emit (Output []),
        emit (Report ''LCOW''),
        emit (Output []),
        emit (Report ''LCOH''),
        emit (Output []),
        emit (Report ''LCOT''),
        emit (Output []),
        emit (Output ''Percent from the grid''),
        emit (Output ''report_MD''),
        emit (Output ''report_md_costing''),
        emit (Output ''print_DWI_costing_breakdown''),
        emit (Output ''report_fpc''),
        emit (Output ''report_fpc_costing''),
        report_costing]"

section \<open>reflo/analysis/case\_studies/permian/permian\_ST2\_MD.py\<close>




section \<open>The scripts of the multi-period PV, battery and RO model\<close>






section \<open>The order of assembling, solving and reporting\<close>

text \<open>
  A run goes through four phases: nothing assembled yet, a model assembled, the solver
  invoked, a levelized cost reported. The solver may be invoked only once a model is
  assembled, and a levelized cost may be reported only once the solver has been invoked.
  \<open>run_phase\<close> follows a list of events and is \<open>None\<close> as soon as one of them comes too
  early; it ends in \<open>Reported\<close> exactly when the events hold an assembling, a later solver
  invocation and a still later report, with nothing too early. Assembling again after a
  solve does not take the run back: what is asked of a report is that a solver invocation
  precedes it.
\<close>

datatype phase = Start | Assembled | Solved | Reported

fun phase_step :: "phase \<Rightarrow> event \<Rightarrow> phase option" where
  "phase_step p (Assemble _) = Some (if p = Start then Assembled else p)"
| "phase_step p (SolverSolve _) =
     (if p = Start then None else if p = Reported then Some Reported else Some Solved)"
| "phase_step p (Report _) =
     (if p = Solved \<or> p = Reported then Some Reported else None)"
| "phase_step p (Output _) = Some p"

fun run_phase :: "phase \<Rightarrow> event list \<Rightarrow> phase option" where
  "run_phase p [] = Some p"
| "run_phase p (e # es) =
     (case phase_step p e of None \<Rightarrow> None | Some q \<Rightarrow> run_phase q es)"

definition well_ordered :: "event list \<Rightarrow> bool" where
  "well_ordered es \<longleftrightarrow> run_phase Start es \<noteq> None"

text \<open>
  The events of the run of a script, and whether the script runs to its end. A script
  \<open>assembles_solves_reports\<close> when its events are in order, and so is every initial part
  of them (the run cut short by an exception of any call), and when running to its end it
  has assembled, then invoked the solver, then reported.
\<close>

definition trace :: "unit prog \<Rightarrow> event list" where
  "trace p = events (snd (p initial))"




definition phase_of :: "run_state \<Rightarrow> phase option" where
  "phase_of s = run_phase Start (events s)"

fun rank :: "phase \<Rightarrow> nat" where
  "rank Start = 0"
| "rank Assembled = 1"
| "rank Solved = 2"
| "rank Reported = 3"

definition at_least :: "phase \<Rightarrow> run_state \<Rightarrow> bool" where
  "at_least a s \<longleftrightarrow> (\<exists>q. phase_of s = Some q \<and> rank a \<le> rank q)"

text \<open>
  \<open>reaches a p b\<close>: started in a state whose events are in order and have come to
  phase \<open>a\<close> or further, \<open>p\<close> keeps the events in order, ends in phase \<open>b\<close> or further
  when it returns, and is still in phase \<open>a\<close> or further when it raises.
\<close>

definition reaches :: "phase \<Rightarrow> 'a prog \<Rightarrow> phase \<Rightarrow> bool" where
  "reaches a p b \<longleftrightarrow>
     (\<forall>s. at_least a s \<longrightarrow>
        (case p s of (Inr x, s') \<Rightarrow> at_least b s' | (Inl e, s') \<Rightarrow> at_least a s'))"

section \<open>Local files named by the case-study modules\<close>

text \<open>\<open>os.path.join\<close> of two components on a POSIX system.\<close>

definition os_path_join :: "string \<Rightarrow> string \<Rightarrow> string" where
  "os_path_join a b =
     (if b \<noteq> [] \<and> hd b = CHR ''/'' then b
      else if a = [] \<or> last a = CHR ''/'' then a @ b
      else a @ ''/'' @ b)"

text \<open>
  The module-level paths of \<open>KBHDP_RPT_3.py\<close> and \<open>permian_ST2_MD.py\<close>, as functions of
  \<open>reflo_dir\<close> (the directory three levels above the module) and of \<open>__location__\<close> (the
  directory of \<open>KBHDP_RPT_3.py\<close>). Both modules call their YAML path
  \<open>case_study_yaml\<close>.
\<close>

definition KBHDP_case_study_yaml :: "string \<Rightarrow> string" where
  "KBHDP_case_study_yaml reflo_dir =
     reflo_dir @ ''/data/technoeconomic/kbhdp_case_study.yaml''"

definition weather_file :: "string \<Rightarrow> string" where
  "weather_file location = os_path_join location ''el_paso_texas-KBHDP-weather.csv''"

definition param_file :: "string \<Rightarrow> string" where
  "param_file location = os_path_join location ''swh-kbhdp.json''"

definition permian_case_study_yaml :: "string \<Rightarrow> string" where
  "permian_case_study_yaml reflo_dir =
     reflo_dir @ ''/data/technoeconomic/permian_case_study.yaml''"

text \<open>The format of a file is read off its name: the text after the last dot.\<close>

definition file_extension :: "string \<Rightarrow> string" where
  "file_extension path = rev (takeWhile (\<lambda>c. c \<noteq> CHR ''.'') (rev path))"

section \<open>Properties of the multi-period model\<close>

lemma flowsheet_options_ok:
  "\<forall>t \<in> set ts. t < length ghi \<and> t < length price \<Longrightarrow>
   flowsheet_options ghi price cap req ts =
     Inr (map (\<lambda>t. \<lparr>GHI = ghi ! t, elec_price = price ! t,
                      ro_capacity = cap, ro_elec_req = req\<rparr>) ts)"
  by (induction ts) (simp_all add: py_index_def)

lemma LCOW_value:
  "cap \<noteq> 0 \<Longrightarrow>
   LCOW n cap cbp cbe val grid_cost =
     Inr (total_cost n cbp cbe val grid_cost / cap / 24 * of_int n + 0.45)"
  by (simp add: LCOW_def)

lemma LCOW_one_day:
  "cap \<noteq> 0 \<Longrightarrow>
   LCOW 24 cap cbp cbe val grid_cost =
     Inr (levelized_cost_of_water 24 cap (total_cost 24 cbp cbe val grid_cost))"
  by (simp add: LCOW_def levelized_cost_of_water_def produced_volume_def)

text \<open>
  C1. The \<open>LCOW\<close> expression is claimed to be the levelized cost of water for every
  number of time points. With twelve time points, a capacity of 6000 cubic metres per day,
  the default battery prices, no installed PV or battery and a grid cost of 1 in each
  block, the total cost is 12 and the produced volume 3000, so the levelized cost is 0.454;
  the expression of the module evaluates to 0.451.
\<close>

theorem LCOW_half_day_not_levelized:
  "total_cost 12 75 50 (\<lambda>v. 0) (\<lambda>i. 1) = 12 \<and>
   produced_volume 12 6000 = 3000 \<and>
   levelized_cost_of_water 12 6000 (total_cost 12 75 50 (\<lambda>v. 0) (\<lambda>i. 1)) = 0.454 \<and>
   LCOW 12 6000 75 50 (\<lambda>v. 0) (\<lambda>i. 1) = Inr 0.451"
proof -
  have len: "sum_list (map (\<lambda>i. 1::real) [0..<12]) = 12"
    by (simp add: sum_list_triv)
  have tc: "total_cost 12 75 50 (\<lambda>v. 0) (\<lambda>i. 1) = 12"
    using len by (simp add: total_cost_def battery_cost_def pv_cost_def)
  show ?thesis
    using tc by (simp add: LCOW_def levelized_cost_of_water_def produced_volume_def)
qed


lemma create_multiperiod_zero_capacity:
  assumes "0 < n" and "nat n \<le> length ghi" and "nat n \<le> length price"
  shows "create_multiperiod_pv_battery_model n 0 req cbp cbe ghi price built_fixed
           = Inl ZeroDivisionError"
proof -
  have "flowsheet_options ghi price 0 req [0..<nat n] =
          Inr (map (\<lambda>t. \<lparr>GHI = ghi ! t, elec_price = price ! t,
                           ro_capacity = 0, ro_elec_req = req\<rparr>) [0..<nat n])"
    using assms by (intro flowsheet_options_ok) auto
  with assms(1) show ?thesis
    by (simp add: create_multiperiod_pv_battery_model_def build_multi_period_model_def Let_def)
qed

lemma create_multiperiod_no_time_point:
  "n \<le> 0 \<Longrightarrow>
   create_multiperiod_pv_battery_model n cap req cbp cbe ghi price built_fixed = Inl IndexError"
  by (simp add: create_multiperiod_pv_battery_model_def build_multi_period_model_def)

lemma create_multiperiod_objective:
  assumes "create_multiperiod_pv_battery_model n cap req cbp cbe ghi price built_fixed = Inr mp"
  shows "\<exists>f. obj mp = Some f \<and> LCOW n cap cbp cbe val grid_cost = Inr (f val grid_cost)"
  using assms
  by (auto simp: create_multiperiod_pv_battery_model_def Let_def LCOW_def
        split: sum.splits if_splits)

text \<open>
  C5. When the model is created (at least one time point, \<open>GHI\<close> and \<open>elec_price\<close>
  long enough, and a capacity other than zero), every two consecutive time blocks \<open>t\<close>
  and \<open>t + 1\<close> are linked by exactly five pairs of variables: the state of charge and the
  energy throughput of \<open>t\<close> with the initial state of charge and the initial energy
  throughput of \<open>t + 1\<close>, and the battery's nameplate power, its nameplate energy and the
  PV size of the two blocks. The initial state of charge and the initial energy throughput
  of block 0 are fixed to 0.
\<close>

theorem multiperiod_links_and_initial_state:
  assumes "0 < n" and "nat n \<le> length ghi" and "nat n \<le> length price" and "cap \<noteq> 0"
  shows "\<exists>mp. create_multiperiod_pv_battery_model n cap req cbp cbe ghi price built_fixed
               = Inr mp
           \<and> length (blocks mp) = nat n
           \<and> length (link_constraints mp) = nat n - 1
           \<and> (\<forall>t. Suc t < nat n \<longrightarrow>
                 length (link_constraints mp ! t) = 5 \<and>
                 link_constraints mp ! t =
                   [((t, state_of_charge), (Suc t, initial_state_of_charge)),
                    ((t, energy_throughput), (Suc t, initial_energy_throughput)),
                    ((t, nameplate_power), (Suc t, nameplate_power)),
                    ((t, nameplate_energy), (Suc t, nameplate_energy)),
                    ((t, pv_size), (Suc t, pv_size))])
           \<and> fixed mp (0, initial_state_of_charge) = Some 0
           \<and> fixed mp (0, initial_energy_throughput) = Some 0"
proof -
  let ?opts = "map (\<lambda>t. \<lparr>GHI = ghi ! t, elec_price = price ! t,
                           ro_capacity = cap, ro_elec_req = req\<rparr>) [0..<nat n]"
  have opts: "flowsheet_options ghi price cap req [0..<nat n] = Inr ?opts"
    using assms by (intro flowsheet_options_ok) auto
  have nonempty: "?opts \<noteq> []"
    using assms(1) by simp
  let ?mp = "build_multi_period_model get_pv_ro_variable_pairs ?opts built_fixed"
  let ?res = "?mp\<lparr>fixed := (fixed ?mp)
                 ((0, initial_state_of_charge) \<mapsto> 0,
                  (0, initial_energy_throughput) \<mapsto> 0),
               obj := Some (\<lambda>val grid_cost.
                        total_cost n cbp cbe val grid_cost / cap / 24 * of_int n + 0.45)\<rparr>"
  have created:
    "create_multiperiod_pv_battery_model n cap req cbp cbe ghi price built_fixed = Inr ?res"
    using opts nonempty assms(4)
    by (simp add: create_multiperiod_pv_battery_model_def build_multi_period_model_def Let_def)
  have links: "\<forall>t. Suc t < nat n \<longrightarrow>
                 length (link_constraints ?res ! t) = 5 \<and>
                 link_constraints ?res ! t =
                   [((t, state_of_charge), (Suc t, initial_state_of_charge)),
                    ((t, energy_throughput), (Suc t, initial_energy_throughput)),
                    ((t, nameplate_power), (Suc t, nameplate_power)),
                    ((t, nameplate_energy), (Suc t, nameplate_energy)),
                    ((t, pv_size), (Suc t, pv_size))]"
  proof (intro allI impI)
    fix t assume "Suc t < nat n"
    then have "t < nat n - 1" by simp
    then have "[0..<nat n - 1] ! t = t" "t < length [0..<nat n - 1]"
      by simp_all
    then show "length (link_constraints ?res ! t) = 5 \<and>
                 link_constraints ?res ! t =
                   [((t, state_of_charge), (Suc t, initial_state_of_charge)),
                    ((t, energy_throughput), (Suc t, initial_energy_throughput)),
                    ((t, nameplate_power), (Suc t, nameplate_power)),
                    ((t, nameplate_energy), (Suc t, nameplate_energy)),
                    ((t, pv_size), (Suc t, pv_size))]"
      by (simp add: build_multi_period_model_def get_pv_ro_variable_pairs_def)
  qed
  have "length (blocks ?res) = nat n" "length (link_constraints ?res) = nat n - 1"
       "fixed ?res (0, initial_state_of_charge) = Some 0"
       "fixed ?res (0, initial_energy_throughput) = Some 0"
    by (simp_all add: build_multi_period_model_def)
  with created links show ?thesis
    by blast
qed

theorem multiperiod_links_and_initial_state_witness:
  "(0::int) < 2 \<and> nat 2 \<le> length [0, 23 :: real] \<and> nat 2 \<le> length [0.07, 0.07 :: real]
   \<and> (6000::real) \<noteq> 0
   \<and> (\<exists>mp. create_multiperiod_pv_battery_model 2 6000 944.3 75 50 [0, 23] [0.07, 0.07]
              Map.empty = Inr mp
     \<and> link_constraints mp ! 0 =
         [((0, state_of_charge), (1, initial_state_of_charge)),
          ((0, energy_throughput), (1, initial_energy_throughput)),
          ((0, nameplate_power), (1, nameplate_power)),
          ((0, nameplate_energy), (1, nameplate_energy)),
          ((0, pv_size), (1, pv_size))]
     \<and> fixed mp (0, initial_state_of_charge) = Some 0
     \<and> fixed mp (0, initial_energy_throughput) = Some 0)"
proof -
  have h1: "(0::int) < 2" by simp
  have h2: "nat 2 \<le> length [0, 23 :: real]" by simp
  have h3: "nat 2 \<le> length [0.07, 0.07 :: real]" by simp
  have h4: "(6000::real) \<noteq> 0" by simp
  from multiperiod_links_and_initial_state [OF h1 h2 h3 h4, of "944.3" 75 50 Map.empty]
  obtain mp where
    mp: "create_multiperiod_pv_battery_model 2 6000 944.3 75 50 [0, 23] [0.07, 0.07]
           Map.empty = Inr mp"
    and links: "\<forall>t. Suc t < nat 2 \<longrightarrow>
                 length (link_constraints mp ! t) = 5 \<and>
                 link_constraints mp ! t =
                   [((t, state_of_charge), (Suc t, initial_state_of_charge)),
                    ((t, energy_throughput), (Suc t, initial_energy_throughput)),
                    ((t, nameplate_power), (Suc t, nameplate_power)),
                    ((t, nameplate_energy), (Suc t, nameplate_energy)),
                    ((t, pv_size), (Suc t, pv_size))]"
    and fx: "fixed mp (0, initial_state_of_charge) = Some 0"
            "fixed mp (0, initial_energy_throughput) = Some 0"
    by blast
  from links have "link_constraints mp ! 0 =
         [((0, state_of_charge), (Suc 0, initial_state_of_charge)),
          ((0, energy_throughput), (Suc 0, initial_energy_throughput)),
          ((0, nameplate_power), (Suc 0, nameplate_power)),
          ((0, nameplate_energy), (Suc 0, nameplate_energy)),
          ((0, pv_size), (Suc 0, pv_size))]"
    by simp
  with mp fx show ?thesis
    by auto
qed

section \<open>Properties of \<open>add_vagmd\<close>\<close>

subsection \<open>Rounding to double precision\<close>

lemma exponent_from_eq:
  "2 powi e \<le> x \<Longrightarrow> x < 2 powi (e + 1) \<Longrightarrow> e \<le> e0 \<Longrightarrow> e0 - e \<le> int n \<Longrightarrow>
   exponent_from n e0 x = e"
proof (induction n arbitrary: e0)
  case 0
  then show ?case by simp
next
  case (Suc n)
  show ?case
  proof (cases "2 powi e0 \<le> x")
    case True
    with Suc.prems(2) have less: "(2::real) powi e0 < 2 powi (e + 1)" by simp
    have "e0 < e + 1"
    proof (rule ccontr)
      assume "\<not> e0 < e + 1"
      then have "(2::real) powi (e + 1) \<le> 2 powi e0"
        by (intro power_int_increasing) simp_all
      with less show False by simp
    qed
    with Suc.prems(3) True show ?thesis by simp
  next
    case False
    with Suc.prems(1) have "e \<noteq> e0" by auto
    with Suc.prems(3,4) have "e \<le> e0 - 1" "e0 - 1 - e \<le> int n" by simp_all
    with Suc.IH [OF Suc.prems(1,2)] False show ?thesis by simp
  qed
qed

lemma double_exponent_eq:
  assumes "- 1022 \<le> e" "e \<le> 1023" "2 powi e \<le> \<bar>x\<bar>" "\<bar>x\<bar> < 2 powi (e + 1)"
  shows "double_exponent x = e"
  unfolding double_exponent_def using assms by (intro exponent_from_eq) simp_all

lemma to_double_eval:
  assumes "- 1022 \<le> e" "e \<le> 1023" "2 powi e \<le> \<bar>x\<bar>" "\<bar>x\<bar> < 2 powi (e + 1)"
  shows "to_double x = of_int (round_half_even (x / 2 powi (e - 52))) * 2 powi (e - 52)"
  unfolding to_double_def double_exponent_eq [OF assms] by (simp add: Let_def)

lemma to_double_zero: "to_double 0 = 0"
  by (simp add: to_double_def round_half_even_def)

lemma exponent_from_cases:
  "2 powi (exponent_from n e0 x) \<le> x \<or> exponent_from n e0 x = e0 - int n"
proof (induction n arbitrary: e0)
  case 0
  show ?case by simp
next
  case (Suc n)
  from Suc [of "e0 - 1"] show ?case by auto
qed

lemma exponent_from_bounds:
  "e0 - int n \<le> exponent_from n e0 x \<and> exponent_from n e0 x \<le> e0"
proof (induction n arbitrary: e0)
  case 0
  show ?case by simp
next
  case (Suc n)
  from Suc [of "e0 - 1"] show ?case by auto
qed

lemma round_half_even_zero:
  assumes "round_half_even z = 0"
  shows "\<bar>z\<bar> \<le> 1 / 2"
  using assms
  by (simp add: round_half_even_def Let_def split: if_splits; linarith)

lemma to_double_zero_imp:
  assumes "to_double y = 0"
  shows "\<bar>y\<bar> \<le> 2 powi (- 1075)"
proof -
  define e where "e = double_exponent y"
  have ulp: "(0::real) < 2 powi (e - 52)" by simp
  from assms have "round_half_even (y / 2 powi (e - 52)) = 0"
    by (simp add: to_double_def Let_def e_def)
  then have "\<bar>y / 2 powi (e - 52)\<bar> \<le> 1 / 2"
    by (rule round_half_even_zero)
  then have "\<bar>y\<bar> \<le> 2 powi (e - 52) / 2"
    using ulp by (simp add: field_simps abs_mult)
  also have "\<dots> = 2 powi (e - 53)"
  proof -
    have "(2::real) powi (e - 52) = 2 powi (e - 53 + 1)" by simp
    also have "\<dots> = 2 powi (e - 53) * 2" by (subst power_int_add_1) simp_all
    finally show ?thesis by simp
  qed
  finally have small: "\<bar>y\<bar> \<le> 2 powi (e - 53)" .
  have "(2::real) powi (e - 53) < 2 powi e"
    by (rule power_int_strict_increasing) simp_all
  with small have "\<not> 2 powi e \<le> \<bar>y\<bar>" by simp
  with exponent_from_cases [of 2045 1023 "\<bar>y\<bar>"] have "e = - 1022"
    by (simp add: e_def double_exponent_def)
  with small show ?thesis by simp
qed

lemma double_differs_from_one:
  assumes "to_double r = r" and "r \<noteq> 1"
  shows "2 powi (- 1075) < \<bar>1 - r\<bar>"
proof -
  define e where "e = double_exponent r"
  define k where "k = round_half_even (r / 2 powi (e - 52))"
  have r: "r = of_int k * 2 powi (e - 52)"
    using assms(1) by (simp add: to_double_def Let_def e_def k_def)
  have low: "- 1022 \<le> e"
    using exponent_from_bounds [of 1023 2045 "\<bar>r\<bar>"] by (simp add: e_def double_exponent_def)
  show ?thesis
  proof (cases "e \<le> 52")
    case True
    have "(of_int (2 ^ nat (52 - e)) :: real) = 2 powi (52 - e)"
      using True by (simp add: power_int_def)
    then have "(of_int (2 ^ nat (52 - e)) :: real) * 2 powi (e - 52)
                    = 2 powi (52 - e) * 2 powi (e - 52)"
      by simp
    also have "\<dots> = 2 powi (52 - e + (e - 52))"
      by (subst power_int_add) simp_all
    finally have one: "(1::real) = of_int (2 ^ nat (52 - e)) * 2 powi (e - 52)"
      by simp
    have "1 - r = of_int (2 ^ nat (52 - e) - k) * 2 powi (e - 52)"
      using r one by (simp add: algebra_simps)
    moreover have "2 ^ nat (52 - e) - k \<noteq> 0"
      using r one assms(2) by auto
    then have "1 \<le> \<bar>2 ^ nat (52 - e) - k\<bar>" by simp
    then have "(1::real) \<le> of_int \<bar>2 ^ nat (52 - e) - k\<bar>"
      by (simp only: of_int_1_le_iff)
    then have "1 * 2 powi (e - 52) \<le> \<bar>of_int (2 ^ nat (52 - e) - k) :: real\<bar> * 2 powi (e - 52)"
      by (intro mult_right_mono) simp_all
    ultimately have "2 powi (e - 52) \<le> \<bar>1 - r\<bar>"
      by (simp add: abs_mult)
    moreover have "(2::real) powi (- 1075) < 2 powi (e - 52)"
      using low by (intro power_int_strict_increasing) simp_all
    ultimately show ?thesis by simp
  next
    case False
    with exponent_from_cases [of 2045 1023 "\<bar>r\<bar>"] have "2 powi e \<le> \<bar>r\<bar>"
      by (simp add: e_def double_exponent_def)
    moreover have "(2::real) powi 1 \<le> 2 powi e"
      using False by (intro power_int_increasing) simp_all
    ultimately have "2 \<le> \<bar>r\<bar>" by simp
    then have "1 \<le> \<bar>1 - r\<bar>" by simp
    moreover have "(2::real) powi (- 1075) < 2 powi 0"
      by (intro power_int_strict_increasing) simp_all
    ultimately show ?thesis by simp
  qed
qed

text \<open>
  The difference \<open>1 - r\<close> of a double \<open>r\<close> rounds to zero only when \<open>r\<close> is 1:
  the division of \<open>add_vagmd\<close> raises ZeroDivisionError for a recovery ratio of 1 and
  for no other float.
\<close>

lemma float_divisor_nonzero:
  assumes "to_double r = r" and "r \<noteq> 1"
  shows "to_double (1 - r) \<noteq> 0"
  using double_differs_from_one [OF assms] to_double_zero_imp [of "1 - r"] by auto



lemma double_175_3: "to_double 175.3 = 3083910213586125 / 17592186044416"
  by (simp add: to_double_eval [where e = 7] round_half_even_def power_int_minus)




lemma double_35_06: "to_double 35.06 = 616782042717225 / 17592186044416"
  by (simp add: to_double_eval [where e = 5] round_half_even_def power_int_minus)

lemma double_0_8: "to_double 0.8 = 3602879701896397 / 4503599627370496"
  by (simp add: to_double_eval [where e = "-1"] round_half_even_def power_int_minus)

lemma double_0_2: "to_double (1 - 3602879701896397 / 4503599627370496)
                     = 900719925474099 / 4503599627370496"
  by (simp add: to_double_eval [where e = "-3"] round_half_even_def power_int_minus)

lemma double_quotient:
  "to_double (616782042717225 / 17592186044416 / (900719925474099 / 4503599627370496))
     = 6167820427172251 / 35184372088832"
  by (simp add: to_double_eval [where e = 7] round_half_even_def power_int_minus)

subsection \<open>The calls that raise\<close>

lemma add_vagmd_KeyError:
  assumes "k \<in> {''feed_flow_rate'', ''evap_inlet_temp'', ''cond_inlet_temp'', ''feed_temp'',
                 ''feed_salinity'', ''recovery_ratio'', ''module_type'',
                 ''cooling_system_type'', ''cooling_inlet_temp''}"
      and "inputs k = None"
  shows "add_vagmd ctor inputs = Inl KeyError"
  using assms
  by (auto simp: add_vagmd_def and_then_def getitem_def split: option.splits)

lemma add_vagmd_ZeroDivisionError:
  assumes "inputs ''feed_flow_rate'' = Some flow"
      and "inputs ''evap_inlet_temp'' = Some evap"
      and "inputs ''cond_inlet_temp'' = Some cond"
      and "inputs ''feed_temp'' = Some temp"
      and "inputs ''feed_salinity'' = Some (Num salinity)"
      and "inputs ''recovery_ratio'' = Some (Num 1)"
      and "inputs ''module_type'' = Some mtype"
      and "inputs ''cooling_system_type'' = Some cooling"
      and "inputs ''cooling_inlet_temp'' = Some water"
  shows "add_vagmd ctor inputs = Inl ZeroDivisionError"
  using assms
  by (simp add: add_vagmd_def and_then_def getitem_def py_sub_def py_truediv_def
        to_double_zero)

subsection \<open>The feed flow\<close>

text \<open>
  The comment above the \<open>if\<close> of \<open>add_vagmd\<close> says that for a final brine salinity
  above 175.3 g/L the operating parameters need to be fixed at a certain value, and the
  branch assigns \<open>feed_flow_rate = 1100\<close>. No later statement reads that local: whatever
  the inputs, the feed flow of the unit is as the constructor left it.
\<close>

lemma add_vagmd_leaves_feed_flow:
  assumes "add_vagmd ctor inputs = Inr u"
  shows "\<exists>mt hbs cst u0. ctor mt hbs cst = Inr u0 \<and>
                          fixed_vars u feed_flow_vol = fixed_vars u0 feed_flow_vol"
  using assms
  by (auto simp: add_vagmd_def and_then_def fix_var_def Let_def
           split: sum.splits if_splits prod.splits)
     blast+

subsection \<open>The two branches\<close>

text \<open>
  A feed salinity of 35.06 g/L at a recovery ratio of 0.8: over the reals the final brine
  salinity is 175.3 g/L, which does not exceed 175.3; in double precision the quotient is
  175.30000000000004 and the literal \<open>175.3\<close> is a smaller double, so that \<open>add_vagmd\<close>
  takes the high-salinity branch.
\<close>

lemma add_vagmd_rounding:
  "\<not> (35.06 / (1 - 0.8) > (175.3::real)) \<and>
   map_sum id config_high_brine_salinity
     (add_vagmd bare_unit
        [''feed_flow_rate'' \<mapsto> Num 600, ''evap_inlet_temp'' \<mapsto> Num 70,
         ''cond_inlet_temp'' \<mapsto> Num 20, ''feed_temp'' \<mapsto> Num 25,
         ''feed_salinity'' \<mapsto> Num (to_double 35.06),
         ''recovery_ratio'' \<mapsto> Num (to_double 0.8),
         ''module_type'' \<mapsto> Str ''AS7C1.5L'', ''cooling_system_type'' \<mapsto> Str ''open'',
         ''cooling_inlet_temp'' \<mapsto> Num 22]) = Inr True"
proof -
  have exceeds: "to_double 175.3 < to_double (to_double 35.06 / to_double (1 - to_double 0.8))"
    unfolding double_35_06 double_0_8 double_0_2 double_quotient double_175_3 by simp
  have divisor: "to_double (1 - to_double 0.8) \<noteq> 0"
    unfolding double_0_8 double_0_2 by simp
  from exceeds divisor show ?thesis
    by (simp add: add_vagmd_def and_then_def getitem_def py_sub_def py_truediv_def
          py_add_def bare_unit_def fix_var_def)
qed




section \<open>Properties of the flat-plate model\<close>

lemma year_in_hours: "pyunits_convert 1 year hour = 8766"
  by (simp add: pyunits_convert_def)

lemma build_constraints_hold:
  assumes "feasible v (build base)"
  shows "v heat_annual = v heat * pyunits_convert 1 year hour"
    and "v electricity_annual = v electricity * pyunits_convert 1 year hour"
    and "0 \<le> v heat_load"
    and "feasible v base"
  using assms by (auto simp: feasible_def build_def)

lemma build_feasible_iff:
  "feasible v (build base) \<longleftrightarrow>
     feasible v base \<and> v heat_annual = v heat * 8766
     \<and> v electricity_annual = v electricity * 8766 \<and> 0 \<le> v heat_load"
  by (auto simp: feasible_def build_def pyunits_convert_def)

lemma common_year_factor_infeasible:
  "\<not> feasible (\<lambda>x. case x of heat \<Rightarrow> 1 | heat_annual \<Rightarrow> 8760 | _ \<Rightarrow> 0) (build base)"
  by (simp add: build_feasible_iff)

lemma initialize_returns_optimal:
  assumes "fst (initialize outcome chk name None s) = Inr ()"
  shows "\<exists>res. outcome (solves s) = Inr res \<and> chk res"
proof (cases "outcome (solves s)")
  case (Inl e)
  with assms show ?thesis
    by (simp add: initialize_def py_bind_def solver_solve_def)
next
  case (Inr res)
  with assms show ?thesis
    by (simp add: initialize_def py_bind_def py_raise_def emit_def solver_solve_def
          split: if_splits)
qed

text \<open>
  C8. At every feasible point of the block that \<open>build\<close> makes, whatever the base class
  put into it, \<open>heat_annual\<close> is \<open>heat\<close> times the number of hours in one year, which
  the unit conversion of the two constraints gives as 8766, and \<open>electricity_annual\<close> is
  \<open>electricity\<close> times the same factor. A solved model is at such a point: when
  \<open>initialize\<close> returns, and the results that pass the termination check carry feasible
  points of the block, the solve it invoked returned results at which the two equations
  hold.
\<close>

theorem annual_energy_at_feasible_point:
  "(feasible v (build base) \<longrightarrow>
      v heat_annual = v heat * 8766 \<and> v electricity_annual = v electricity * 8766) \<and>
   (optimal_is_feasible chk point (build base) \<and>
    fst (initialize outcome chk name None s) = Inr () \<longrightarrow>
      (\<exists>res. outcome (solves s) = Inr res \<and> chk res \<and>
             point res heat_annual = point res heat * 8766 \<and>
             point res electricity_annual = point res electricity * 8766))"
proof
  show "feasible v (build base) \<longrightarrow>
      v heat_annual = v heat * 8766 \<and> v electricity_annual = v electricity * 8766"
    using build_constraints_hold(1,2) [of v base] by (simp add: year_in_hours)
next
  show "optimal_is_feasible chk point (build base) \<and>
    fst (initialize outcome chk name None s) = Inr () \<longrightarrow>
      (\<exists>res. outcome (solves s) = Inr res \<and> chk res \<and>
             point res heat_annual = point res heat * 8766 \<and>
             point res electricity_annual = point res electricity * 8766)"
  proof
    assume a: "optimal_is_feasible chk point (build base) \<and>
               fst (initialize outcome chk name None s) = Inr ()"
    then obtain res where res: "outcome (solves s) = Inr res" "chk res"
      using initialize_returns_optimal by blast
    with a have "feasible (point res) (build base)"
      by (simp add: optimal_is_feasible_def)
    from build_constraints_hold(1,2) [OF this] res
    show "\<exists>res. outcome (solves s) = Inr res \<and> chk res \<and>
               point res heat_annual = point res heat * 8766 \<and>
               point res electricity_annual = point res electricity * 8766"
      by (simp add: year_in_hours)
  qed
qed

theorem annual_energy_at_feasible_point_witness:
  "feasible (\<lambda>x. case x of heat \<Rightarrow> 2 | electricity \<Rightarrow> 3 | heat_load \<Rightarrow> 1
                   | heat_annual \<Rightarrow> 17532 | electricity_annual \<Rightarrow> 26298)
     (build \<lparr>constraints = [], lower_bounds = []\<rparr>) \<and>
   optimal_is_feasible (\<lambda>res::unit. True)
     (\<lambda>res x. case x of heat \<Rightarrow> 2 | electricity \<Rightarrow> 3 | heat_load \<Rightarrow> 1
                | heat_annual \<Rightarrow> 17532 | electricity_annual \<Rightarrow> 26298)
     (build \<lparr>constraints = [], lower_bounds = []\<rparr>) \<and>
   fst (initialize (\<lambda>k. Inr ()) (\<lambda>res. True) ''fs.flat_plate'' None initial) = Inr () \<and>
   (17532::real) = 2 * 8766 \<and> (26298::real) = 3 * 8766"
proof -
  let ?v = "\<lambda>x. case x of heat \<Rightarrow> 2 | electricity \<Rightarrow> 3 | heat_load \<Rightarrow> (1::real)
                   | heat_annual \<Rightarrow> 17532 | electricity_annual \<Rightarrow> 26298"
  let ?b = "build \<lparr>constraints = [], lower_bounds = []\<rparr>"
  have h: "feasible ?v ?b"
    by (simp add: feasible_def build_def pyunits_convert_def)
  then have c: "optimal_is_feasible (\<lambda>res. True) (\<lambda>res::unit. ?v) ?b"
    by (simp add: optimal_is_feasible_def)
  have i: "fst (initialize (\<lambda>k. Inr ()) (\<lambda>res. True) ''fs.flat_plate'' None initial) = Inr ()"
    by (simp add: initialize_def py_bind_def emit_def solver_solve_def initial_def)
  from annual_energy_at_feasible_point
         [of ?v "\<lparr>constraints = [], lower_bounds = []\<rparr>" "\<lambda>res. True" "\<lambda>res::unit. ?v"
             "\<lambda>k. Inr ()" "''fs.flat_plate''" initial] h c i
  show ?thesis
    by simp
qed

section \<open>Formats of the local files\<close>

lemma file_extension_append:
  "CHR ''.'' \<in> set name \<Longrightarrow> file_extension (dir @ name) = file_extension name"
  by (simp add: file_extension_def takeWhile_append1)

lemma os_path_join_relative:
  "b \<noteq> [] \<Longrightarrow> hd b \<noteq> CHR ''/'' \<Longrightarrow> \<exists>dir. os_path_join a b = dir @ b"
  by (auto simp: os_path_join_def intro: exI[of _ "a @ ''/''"] exI[of _ a])

text \<open>
  C6, as stated, fails on \<open>KBHDP_RPT_3.py\<close>: its \<open>param_file\<close> is the JSON file
  \<open>swh-kbhdp.json\<close>, neither CSV nor YAML.
\<close>

theorem param_file_is_json:
  "file_extension (param_file ''/reflo/analysis/case_studies/KBHDP'') = ''json''
   \<and> file_extension (param_file ''/reflo/analysis/case_studies/KBHDP'') \<notin> {''csv'', ''yaml''}"
  by (simp add: param_file_def os_path_join_def file_extension_def)

text \<open>
  C6, amended. Every local file named by the case-study modules is a YAML, CSV or JSON
  file: the two case-study definitions are YAML, the weather file of \<open>KBHDP_RPT_3.py\<close> is
  CSV and its parameter file is JSON.
\<close>

theorem local_file_formats:
  "file_extension (KBHDP_case_study_yaml reflo_dir) = ''yaml'' \<and>
   file_extension (weather_file location) = ''csv'' \<and>
   file_extension (param_file location) = ''json'' \<and>
   file_extension (permian_case_study_yaml reflo_dir) = ''yaml''"
proof -
  have yaml1: "file_extension (KBHDP_case_study_yaml reflo_dir) = ''yaml''"
    unfolding KBHDP_case_study_yaml_def
    by (subst file_extension_append) (simp_all add: file_extension_def)
  have yaml2: "file_extension (permian_case_study_yaml reflo_dir) = ''yaml''"
    unfolding permian_case_study_yaml_def
    by (subst file_extension_append) (simp_all add: file_extension_def)
  obtain d where d: "weather_file location = d @ ''el_paso_texas-KBHDP-weather.csv''"
    unfolding weather_file_def
    using os_path_join_relative [of "''el_paso_texas-KBHDP-weather.csv''" location] by auto
  have csv: "file_extension (weather_file location) = ''csv''"
    unfolding d by (subst file_extension_append) (simp_all add: file_extension_def)
  obtain d' where d': "param_file location = d' @ ''swh-kbhdp.json''"
    unfolding param_file_def
    using os_path_join_relative [of "''swh-kbhdp.json''" location] by auto
  have json: "file_extension (param_file location) = ''json''"
    unfolding d' by (subst file_extension_append) (simp_all add: file_extension_def)
  from yaml1 csv json yaml2 show ?thesis
    by simp
qed

section \<open>Properties of the scripts\<close>

lemma run_phase_snoc:
  "run_phase p (es @ [e]) =
     (case run_phase p es of None \<Rightarrow> None | Some q \<Rightarrow> phase_step q e)"
  by (induction es arbitrary: p) (auto split: option.splits)



lemma at_least_mono: "at_least b s \<Longrightarrow> rank a \<le> rank b \<Longrightarrow> at_least a s"
  by (auto simp: at_least_def)

lemma reaches_return: "reaches a (py_return x) a"
  by (simp add: reaches_def py_return_def)

lemma reaches_raise: "reaches a (py_raise e) b"
  by (simp add: reaches_def py_raise_def)

lemma reaches_bind:
  assumes "reaches a p b" and "\<And>x. reaches b (f x) c" and "rank a \<le> rank b"
  shows "reaches a (py_bind p f) c"
  unfolding reaches_def
proof (intro allI impI)
  fix s assume s: "at_least a s"
  obtain r s' where ps: "p s = (r, s')" by (cases "p s")
  show "case py_bind p f s of (Inr x, s') \<Rightarrow> at_least c s' | (Inl e, s') \<Rightarrow> at_least a s'"
  proof (cases r)
    case (Inl e)
    with assms(1) s ps show ?thesis
      by (auto simp: reaches_def py_bind_def)
  next
    case (Inr x)
    with assms(1) s ps have b: "at_least b s'"
      by (auto simp: reaches_def)
    obtain r' t where ft: "f x s' = (r', t)" by (cases "f x s'")
    from assms(2)[of x] b ft
    have "case r' of Inr y \<Rightarrow> at_least c t | Inl e \<Rightarrow> at_least b t"
      by (auto simp: reaches_def split: sum.splits)
    then have "case r' of Inr y \<Rightarrow> at_least c t | Inl e \<Rightarrow> at_least a t"
      using assms(3) by (auto split: sum.splits intro: at_least_mono)
    with Inr ps ft show ?thesis
      by (simp add: py_bind_def split: sum.splits)
  qed
qed

lemma reaches_seq_Nil: "reaches a (py_seq []) a"
  by (simp add: reaches_return)

lemma reaches_seq_Cons:
  "reaches a p b \<Longrightarrow> reaches b (py_seq ps) c \<Longrightarrow> rank a \<le> rank b \<Longrightarrow>
   reaches a (py_seq (p # ps)) c"
  by (simp add: reaches_bind)


lemma reaches_if: "reaches a p b \<Longrightarrow> reaches a q b \<Longrightarrow> reaches a (if c then p else q) b"
  by simp

lemma reaches_ignore: "reaches a p b \<Longrightarrow> rank a \<le> rank b \<Longrightarrow> reaches a (ignore p) b"
  unfolding ignore_def by (rule reaches_bind[where b = b]) (simp_all add: reaches_return)


lemma reaches_emit:
  assumes "\<And>q. rank a \<le> rank q \<Longrightarrow> \<exists>q'. phase_step q e = Some q' \<and> rank b \<le> rank q'"
  shows "reaches a (emit e) b"
  using assms
  by (fastforce simp: reaches_def emit_def at_least_def phase_of_def run_phase_snoc)

lemma reaches_Output: "reaches a (emit (Output x)) a"
  by (rule reaches_emit) simp

lemma reaches_Assemble_Start: "reaches Start (emit (Assemble x)) Assembled"
  by (rule reaches_emit) (case_tac q; simp)

lemma reaches_Assemble_Assembled: "reaches Assembled (emit (Assemble x)) Assembled"
  by (rule reaches_emit) (case_tac q; simp)

lemma reaches_Assemble_Solved: "reaches Solved (emit (Assemble x)) Solved"
  by (rule reaches_emit) (case_tac q; simp)

lemma reaches_Assemble_Reported: "reaches Reported (emit (Assemble x)) Reported"
  by (rule reaches_emit) (case_tac q; simp)

lemma reaches_Report: "reaches Solved (emit (Report x)) Reported"
  by (rule reaches_emit) (case_tac q; simp)

lemma reaches_Report_Reported: "reaches Reported (emit (Report x)) Reported"
  by (rule reaches_emit) (case_tac q; simp)




lemma reaches_assert_optimal_termination:
  "reaches a (assert_optimal_termination chk status_text results) a"
  unfolding assert_optimal_termination_def
  by (rule reaches_if reaches_return reaches_raise)+

lemmas reaches_rules =
  reaches_seq_Nil reaches_seq_Cons reaches_if reaches_ignore reaches_Output
  reaches_Assemble_Start reaches_Assemble_Assembled reaches_Assemble_Solved
  reaches_Assemble_Reported reaches_Report reaches_Report_Reported
  reaches_return reaches_raise reaches_assert_optimal_termination








lemma reaches_report_costing_Reported: "reaches Reported report_costing Reported"
  unfolding report_costing_def
  by (rule reaches_rules | simp)+

lemma reaches_report_costing: "reaches Solved report_costing Reported"
  unfolding report_costing_def
  by (rule reaches_rules | simp)+

lemma reaches_print_results_summary: "reaches Solved print_results_summary Reported"
  unfolding print_results_summary_def
  by (rule reaches_rules reaches_report_costing_Reported | simp)+










subsection \<open>Runs with a solver that succeeds\<close>









text \<open>
  \<open>print_results_summary\<close> reports three levelized costs and invokes no solver: run on
  its own its events are out of order, run after a solve they are in order.
\<close>

lemma print_results_summary_alone: "\<not> well_ordered (trace print_results_summary)"
  unfolding trace_def print_results_summary_def report_costing_def
  by (simp add: well_ordered_def initial_def py_bind_def py_return_def emit_def)

text \<open>
  In the script of \<open>KBHDP_RPT_3.py\<close> the first levelized cost is printed after
  \<open>optimize_rpt3\<close> has unfixed and fixed variables of the solved model, and before the
  next solve: a solver invocation precedes the report, with assembling in between.
\<close>

lemma KBHDP_script_first_report:
  "take 3 (drop 25 (trace (KBHDP_script (\<lambda>k. Inr ()) (\<lambda>r. True) 0)))
     = [Assemble ''heat_cost_buy.fix'', Output ''Degrees of Feedom'', Report ''LCOT'']"
  unfolding trace_def KBHDP_script_def build_sweep_def optimize_rpt3_def solve_def
  by (simp add: initial_def py_bind_def py_return_def py_raise_def emit_def ignore_def
        solver_solve_def)



section \<open>Failure paths of \<open>solve\<close> and \<open>initialize\<close>\<close>

lemma solve_optimal:
  assumes "outcome (solves s) = Inr r" and "chk r"
  shows "solve outcome chk name raise_on_failure s =
           (Inr r, s\<lparr>events := events s @
                       [Output (''--------- SOLVING '' @ name @ '' ---------''),
                        SolverSolve name,
                        Output ''--------- OPTIMAL SOLVE!!! ---------''],
                     solves := Suc (solves s)\<rparr>)"
  using assms
  by (simp add: solve_def py_bind_def py_return_def emit_def solver_solve_def)

lemma solve_raise_on_failure:
  assumes "outcome (solves s) = Inr r" and "\<not> chk r"
  shows "solve outcome chk name True s =
           (Inl (RuntimeError infeasible_msg),
            s\<lparr>events := events s @
                  [Output (''--------- SOLVING '' @ name @ '' ---------''),
                   SolverSolve name,
                   Output ''print_infeasible_bounds'',
                   Output ''print_close_to_bounds''],
              solves := Suc (solves s)\<rparr>)"
  using assms
  by (simp add: solve_def py_bind_def py_raise_def emit_def solver_solve_def)

lemma solve_print_on_failure:
  assumes "outcome (solves s) = Inr r" and "\<not> chk r"
  shows "solve outcome chk name False s =
           (Inr r, s\<lparr>events := events s @
                       [Output (''--------- SOLVING '' @ name @ '' ---------''),
                        SolverSolve name,
                        Output infeasible_msg],
                     solves := Suc (solves s)\<rparr>)"
  using assms
  by (simp add: solve_def py_bind_def py_return_def emit_def solver_solve_def)

lemma initialize_default_solver:
  assumes "outcome (solves s) = Inr r"
  shows "fst (initialize outcome chk name None s) =
           (if chk r then Inr ()
            else Inl (InitializationError (''Unit model '' @ name @ '' failed to initialize'')))"
  using assms
  by (simp add: initialize_def py_bind_def py_raise_def emit_def solver_solve_def)

text \<open>
  C2. Every failure path of the solve and initialize helpers is claimed to be a check of
  the solver's termination status followed by diagnostics or an exception of the
  framework. \<open>solve\<close> behaves so (the three lemmas above), and so does \<open>initialize\<close>
  when called without a solver. Called with a solver, as its docstring allows,
  \<open>initialize\<close> raises UnboundLocalError before any solver is invoked and before any
  termination status exists.
\<close>

theorem initialize_given_solver_unbound:
  "initialize outcome chk name (Some solver) s = (Inl UnboundLocalError, s)
   \<and> events (snd (initialize outcome chk name (Some solver) s)) = events s"
  by (simp add: initialize_def py_raise_def)

end
